theory Spec2Isabelle
  imports Complex_Main "HOL-Library.Char_ord" "HOL-Library.List_Lexorder" "HOL-Library.Sublist"
    "HOL-Library.Multiset"
begin

section \<open>The ambulatory table\<close>

text \<open>
  \<open>load_ambulatory_data\<close> returns a data frame with the eight columns selected by its
  query. A row is a record of the eight cells. Every cell may be missing (SQL NULL, which
  pandas holds as \<open>None\<close>/\<open>NaN\<close>): it is an \<open>option\<close>. The text columns are strings. A
  number in a numeric column is a finite float64, that is, a rational.
\<close>

record ambulatory_record =
  codigo_municipio :: "string option"
  nome_municipio :: "string option"
  regiao_nome :: "string option"
  uf_sigla :: "string option"
  ano_producao_ambulatorial :: "string option"
  qtd_total :: "rat option"
  vl_total :: "rat option"
  qtd_total_subgrupos :: "rat option"

type_synonym dataframe = "ambulatory_record list"

definition ambulatory_columns :: "string list" where
  "ambulatory_columns =
     [''codigo_municipio'', ''nome_municipio'', ''regiao_nome'', ''uf_sigla'',
      ''ano_producao_ambulatorial'', ''qtd_total'', ''vl_total'', ''qtd_total_subgrupos'']"

section \<open>The pandas operations used by \<open>main\<close>\<close>

text \<open>
  \<open>df.groupby(key)\<close> with the defaults \<open>sort=True, dropna=True\<close>: the groups are the
  distinct values of the key column that are not missing, in ascending order; the rows
  of a group are the rows holding that key, in the order of the frame.
\<close>

definition groupby_keys :: "('r \<Rightarrow> 'k option) \<Rightarrow> 'r list \<Rightarrow> ('k::linorder) list" where
  "groupby_keys key df = sort (remdups (List.map_filter key df))"

definition group_rows :: "('r \<Rightarrow> 'k option) \<Rightarrow> 'r list \<Rightarrow> 'k \<Rightarrow> 'r list" where
  "group_rows key df k = filter (\<lambda>r. key r = Some k) df"

text \<open>
  The sum, the rounding and the division by a non-zero count that follow are computed
  exactly, on rationals. On the sample tables of this file they give what float64
  gives, and they serve to evaluate these tables. What is proved for every table does
  not rely on them: it is stated on the structure of the groups, on the values as they
  are stored, or with the float64 operations left open (see the by-region aggregate
  with the arithmetic left open, below).

  \<open>'sum'\<close> skips missing cells (and is 0 when every cell is missing).
\<close>

definition agg_sum :: "('r \<Rightarrow> rat option) \<Rightarrow> 'r list \<Rightarrow> rat" where
  "agg_sum col rows = sum_list (List.map_filter col rows)"

text \<open>\<open>'nunique'\<close> counts the distinct cells that are not missing.\<close>

definition nunique :: "('r \<Rightarrow> 'a option) \<Rightarrow> 'r list \<Rightarrow> nat" where
  "nunique col rows = length (remdups (List.map_filter col rows))"

text \<open>
  \<open>Series.round(2)\<close> rounds to the nearest multiple of 1/100, a tie going to the even
  neighbour (numpy's rule).
\<close>

definition rint :: "rat \<Rightarrow> int" where
  "rint x =
     (let f = \<lfloor>x\<rfloor>; d = x - of_int f
      in if d < 1 / 2 then f else if 1 / 2 < d then f + 1 else if even f then f else f + 1)"

definition round2 :: "rat \<Rightarrow> rat" where
  "round2 x = of_int (rint (x * 100)) / 100"

text \<open>
  The result of a float division: a finite number, an infinity or NaN. Dividing two
  columns never raises in pandas: a zero divisor gives an infinity with the sign of the
  dividend, and NaN when the dividend is zero too.
\<close>

datatype fval = Fin rat | PInf | NInf | NaN

definition truediv :: "rat \<Rightarrow> nat \<Rightarrow> fval" where
  "truediv x n =
     (if n \<noteq> 0 then Fin (x / of_nat n)
      else if 0 < x then PInf else if x < 0 then NInf else NaN)"

fun round_f :: "fval \<Rightarrow> fval" where
  "round_f (Fin x) = Fin (round2 x)"
| "round_f v = v"

text \<open>The exceptions that the operations below raise.\<close>

datatype erro = ValueError | TypeError

text \<open>
  The dtype of a numeric column read by \<open>pd.read_sql\<close>: float64 when at least one of its
  cells holds a number, object when every cell is missing. The column of sums that
  \<open>groupby(...).agg\<close> makes of it has the same dtype.
\<close>

definition float_dtype :: "('r \<Rightarrow> rat option) \<Rightarrow> 'r list \<Rightarrow> bool" where
  "float_dtype col df = list_ex (\<lambda>r. col r \<noteq> None) df"

text \<open>
  \<open>DataFrame.nlargest(n, column)\<close> with the default \<open>keep='first'\<close>. On a column
  that is not numeric it raises TypeError. Otherwise it returns the first \<open>n\<close> rows in
  descending order of the column, rows with equal values staying in their order in the
  frame, as \<open>keep='first'\<close> is documented.
\<close>

definition nlargest_rows :: "nat \<Rightarrow> ('r \<Rightarrow> rat) \<Rightarrow> 'r list \<Rightarrow> 'r list" where
  "nlargest_rows n col tbl = take n (sort_key (\<lambda>r. - col r) tbl)"

definition nlargest :: "bool \<Rightarrow> nat \<Rightarrow> ('r \<Rightarrow> rat) \<Rightarrow> 'r list \<Rightarrow> erro + 'r list" where
  "nlargest numeric n col tbl = (if numeric then Inr (nlargest_rows n col tbl) else Inl TypeError)"

section \<open>The aggregates of \<open>main\<close>\<close>

text \<open>
  The three aggregated columns after the renaming of lines 197-201 and 245-249. An
  aggregate table is the list of its rows, each paired with its group key (the column
  that \<open>reset_index\<close> puts back in front). The type of the two sums is a parameter:
  they are rationals where the arithmetic is exact, and float64 values further down,
  where the arithmetic is left open.
\<close>

record 'v totals =
  investimento_total :: 'v
  procedimentos_total :: 'v
  municipios :: nat

definition agg_totals :: "dataframe \<Rightarrow> rat totals" where
  "agg_totals rows =
     \<lparr>investimento_total = agg_sum vl_total rows,
      procedimentos_total = agg_sum qtd_total rows,
      municipios = nunique codigo_municipio rows\<rparr>"

definition groupby_agg :: "(ambulatory_record \<Rightarrow> string option) \<Rightarrow> dataframe
    \<Rightarrow> (string \<times> rat totals) list" where
  "groupby_agg key df = map (\<lambda>k. (k, agg_totals (group_rows key df k))) (groupby_keys key df)"

text \<open>Lines 191-201: the by-region aggregate before the detail columns are added.\<close>

definition investimento_regiao_agg :: "dataframe \<Rightarrow> (string \<times> rat totals) list" where
  "investimento_regiao_agg df = groupby_agg regiao_nome df"

text \<open>
  Lines 229-231: \<open>investimento_total\<close> is overwritten by its rounding, then the two
  per-municipality columns are computed from the columns as they stand, and rounded.
\<close>

record 'v detalhe = "'v totals" +
  investimento_por_municipio :: fval
  procedimentos_por_municipio :: fval

definition add_detalhe :: "rat totals \<Rightarrow> rat detalhe" where
  "add_detalhe t =
     (let inv = round2 (investimento_total t)
      in \<lparr>investimento_total = inv,
          procedimentos_total = procedimentos_total t,
          municipios = municipios t,
          investimento_por_municipio = round_f (truediv inv (municipios t)),
          procedimentos_por_municipio =
            round_f (truediv (procedimentos_total t) (municipios t))\<rparr>)"

definition investimento_regiao :: "dataframe \<Rightarrow> (string \<times> rat detalhe) list" where
  "investimento_regiao df = map (\<lambda>(k, t). (k, add_detalhe t)) (investimento_regiao_agg df)"

text \<open>
  Lines 239-252: the by-state aggregate and its ten largest rows by the value column
  \<open>investimento_total\<close>, which has the dtype of \<open>vl_total\<close>.
\<close>

definition dados_uf :: "dataframe \<Rightarrow> (string \<times> rat totals) list" where
  "dados_uf df = groupby_agg uf_sigla df"

definition valor :: "string \<times> rat totals \<Rightarrow> rat" where
  "valor r = investimento_total (snd r)"

definition top_estados :: "dataframe \<Rightarrow> erro + (string \<times> rat totals) list" where
  "top_estados df = nlargest (float_dtype vl_total df) 10 valor (dados_uf df)"

text \<open>Lines 272-275: the by-year aggregate, two sums and nothing else.\<close>

record evolucao =
  vl_total_sum :: rat
  qtd_total_sum :: rat

definition evolucao_anual :: "dataframe \<Rightarrow> (string \<times> evolucao) list" where
  "evolucao_anual df =
     map (\<lambda>k. (k, \<lparr>vl_total_sum = agg_sum vl_total (group_rows ano_producao_ambulatorial df k),
                   qtd_total_sum = agg_sum qtd_total (group_rows ano_producao_ambulatorial df k)\<rparr>))
       (groupby_keys ano_producao_ambulatorial df)"

text \<open>
  What \<open>main\<close> computes from the ambulatory table, in the order of the program. The
  region and state sections run only under \<open>if not df_ambulatorial.empty\<close> (line 164),
  the state section also under \<open>'uf_sigla' in df_ambulatorial.columns\<close> (line 238), the
  year section under both conditions of line 269. A section that does not run produces
  no table: \<open>None\<close>. An exception ends \<open>main\<close>: the tables computed before it stay, the
  later ones are not computed, and \<open>raised\<close> holds the exception. Two places raise:
  the bar chart of line 174, with ValueError, when \<open>value_counts\<close> of the region names is
  empty because every region name is missing; and \<open>nlargest\<close> at line 252.
\<close>

record analise =
  por_regiao :: "(string \<times> rat detalhe) list option"
  por_estado :: "((string \<times> rat totals) list \<times> (string \<times> rat totals) list) option"
  por_ano :: "(string \<times> evolucao) list option"
  raised :: "erro option"

definition por_ano_section :: "dataframe \<Rightarrow> (string \<times> evolucao) list option" where
  "por_ano_section df =
     (if df \<noteq> [] \<and> ''ano_producao_ambulatorial'' \<in> set ambulatory_columns
      then Some (evolucao_anual df) else None)"

definition main_analise :: "dataframe \<Rightarrow> analise" where
  "main_analise df =
     (if df \<noteq> [] then
        (if groupby_keys regiao_nome df = [] then
           \<lparr>por_regiao = None, por_estado = None, por_ano = None, raised = Some ValueError\<rparr>
         else if ''uf_sigla'' \<in> set ambulatory_columns then
           (case top_estados df of
              Inl e \<Rightarrow>
                \<lparr>por_regiao = Some (investimento_regiao df), por_estado = None,
                 por_ano = None, raised = Some e\<rparr>
            | Inr largest \<Rightarrow>
                \<lparr>por_regiao = Some (investimento_regiao df),
                 por_estado = Some (dados_uf df, largest),
                 por_ano = por_ano_section df, raised = None\<rparr>)
         else
           \<lparr>por_regiao = Some (investimento_regiao df), por_estado = None,
            por_ano = por_ano_section df, raised = None\<rparr>)
      else
        \<lparr>por_regiao = None, por_estado = None, por_ano = por_ano_section df, raised = None\<rparr>)"

text \<open>The sum of the value column of an aggregate table.\<close>

definition total_investimento :: "(string \<times> rat totals) list \<Rightarrow> rat" where
  "total_investimento tbl = sum_list (map (\<lambda>r. investimento_total (snd r)) tbl)"

text \<open>
  The value cells that the by-region aggregate adds up, group after group, each group in
  the order of the frame.
\<close>

definition parcelas_por_regiao :: "dataframe \<Rightarrow> rat list" where
  "parcelas_por_regiao df =
     concat (map (\<lambda>k. List.map_filter vl_total (group_rows regiao_nome df k))
       (groupby_keys regiao_nome df))"

section \<open>The by-region aggregate with the float arithmetic left open\<close>

text \<open>
  The sums, the rounding and the division of lines 191-195 and 229-231 are float64
  operations of pandas. Here they are parameters: \<open>soma\<close> adds the numbers of a group in
  the order of the frame, \<open>arredonda\<close> is \<open>round(2)\<close> on one cell, \<open>quociente\<close> divides a
  cell by a count. Their results are float64 values, infinities and NaN included.
\<close>

record aritmetica =
  soma :: "rat list \<Rightarrow> fval"
  arredonda :: "fval \<Rightarrow> fval"
  quociente :: "fval \<Rightarrow> nat \<Rightarrow> fval"

definition agg_totals_com :: "aritmetica \<Rightarrow> dataframe \<Rightarrow> fval totals" where
  "agg_totals_com ar rows =
     \<lparr>investimento_total = soma ar (List.map_filter vl_total rows),
      procedimentos_total = soma ar (List.map_filter qtd_total rows),
      municipios = nunique codigo_municipio rows\<rparr>"

definition add_detalhe_com :: "aritmetica \<Rightarrow> fval totals \<Rightarrow> fval detalhe" where
  "add_detalhe_com ar t =
     (let inv = arredonda ar (investimento_total t)
      in \<lparr>investimento_total = inv,
          procedimentos_total = procedimentos_total t,
          municipios = municipios t,
          investimento_por_municipio = arredonda ar (quociente ar inv (municipios t)),
          procedimentos_por_municipio =
            arredonda ar (quociente ar (procedimentos_total t) (municipios t))\<rparr>)"

definition investimento_regiao_com :: "aritmetica \<Rightarrow> dataframe \<Rightarrow> (string \<times> fval detalhe) list" where
  "investimento_regiao_com ar df =
     map (\<lambda>k. (k, add_detalhe_com ar (agg_totals_com ar (group_rows regiao_nome df k))))
       (groupby_keys regiao_nome df)"

text \<open>
  The exact arithmetic as an instance: sums of rationals, the rounding and the division
  defined above, an infinity or NaN passing through the division unchanged. With it the
  table is the one of \<open>investimento_regiao\<close>, its sums read as float64 values.
\<close>

fun truediv_f :: "fval \<Rightarrow> nat \<Rightarrow> fval" where
  "truediv_f (Fin x) n = truediv x n"
| "truediv_f v n = v"

definition exata :: aritmetica where
  "exata = \<lparr>soma = (\<lambda>xs. Fin (sum_list xs)), arredonda = round_f, quociente = truediv_f\<rparr>"

definition as_float :: "rat detalhe \<Rightarrow> fval detalhe" where
  "as_float d =
     \<lparr>investimento_total = Fin (investimento_total d),
      procedimentos_total = Fin (procedimentos_total d),
      municipios = municipios d,
      investimento_por_municipio = investimento_por_municipio d,
      procedimentos_por_municipio = procedimentos_por_municipio d\<rparr>"

section \<open>Sample tables\<close>

text \<open>
  A row with a municipality code and a region name that may be missing, a state, a year,
  a quantity and a value.
\<close>

definition linha :: "string option \<Rightarrow> string option \<Rightarrow> string \<Rightarrow> string \<Rightarrow> rat \<Rightarrow> rat
    \<Rightarrow> ambulatory_record" where
  "linha c r u a q v =
     \<lparr>codigo_municipio = c, nome_municipio = None, regiao_nome = r, uf_sigla = Some u,
      ano_producao_ambulatorial = Some a, qtd_total = Some q, vl_total = Some v,
      qtd_total_subgrupos = None\<rparr>"

definition meio_sem_regiao :: dataframe where
  "meio_sem_regiao =
     [linha (Some ''1302603'') (Some ''Norte'') ''AM'' ''2020'' 5 50,
      linha (Some ''1501402'') None ''PA'' ''2020'' 10 100]"

definition norte_sul :: dataframe where
  "norte_sul =
     [linha (Some ''1302603'') (Some ''Norte'') ''AM'' ''2020'' 10 100,
      linha (Some ''1501402'') (Some ''Norte'') ''PA'' ''2021'' 5 50,
      linha (Some ''4314902'') (Some ''Sul'') ''RS'' ''2020'' 7 (1 / 4)]"

definition catorze_milesimos :: dataframe where
  "catorze_milesimos =
     [linha (Some ''1302603'') (Some ''Norte'') ''AM'' ''2020'' 10 (14 / 1000),
      linha (Some ''1501402'') (Some ''Norte'') ''PA'' ''2020'' 6 0]"

definition sem_codigo :: dataframe where
  "sem_codigo = [linha None (Some ''Norte'') ''AM'' ''2020'' 10 100]"

definition milesimo :: dataframe where
  "milesimo = [linha (Some ''1302603'') (Some ''Norte'') ''AM'' ''2020'' 10 (1 / 1000)]"

definition sem_valor :: dataframe where
  "sem_valor =
     [(linha (Some ''1302603'') (Some ''Norte'') ''AM'' ''2020'' 10 0)\<lparr>vl_total := None\<rparr>,
      (linha (Some ''1501402'') (Some ''Norte'') ''PA'' ''2020'' 5 0)\<lparr>vl_total := None\<rparr>]"

definition doze_estados :: dataframe where
  "doze_estados =
     [linha (Some ''3550308'') (Some ''Sudeste'') ''SP'' ''2020'' 9 900,
      linha (Some ''1302603'') (Some ''Norte'') ''AM'' ''2020'' 1 50,
      linha (Some ''2927408'') (Some ''Nordeste'') ''BA'' ''2020'' 1 50,
      linha (Some ''2304400'') (Some ''Nordeste'') ''CE'' ''2020'' 1 300,
      linha (Some ''5300108'') (Some ''Centro-Oeste'') ''DF'' ''2020'' 1 50,
      linha (Some ''5208707'') (Some ''Centro-Oeste'') ''GO'' ''2020'' 1 200,
      linha (Some ''3106200'') (Some ''Sudeste'') ''MG'' ''2020'' 1 700,
      linha (Some ''1501402'') (Some ''Norte'') ''PA'' ''2020'' 1 50,
      linha (Some ''4106902'') (Some ''Sul'') ''PR'' ''2020'' 1 400,
      linha (Some ''3304557'') (Some ''Sudeste'') ''RJ'' ''2020'' 1 800,
      linha (Some ''4314902'') (Some ''Sul'') ''RS'' ''2020'' 1 400,
      linha (Some ''4205407'') (Some ''Sul'') ''SC'' ''2020'' 1 50,
      linha (Some ''3509502'') (Some ''Sudeste'') ''SP'' ''2021'' 1 100]"

section \<open>The database\<close>

text \<open>
  A data frame read from the database: its column names and its rows. The engine is
  the database seen from the program: it answers a statement with a frame, or fails with
  the message of the exception. \<open>pd.read_sql\<close> sends one statement; it is modelled with
  its outcome and the list of the statements it sent.
\<close>

type_synonym 'c frame = "string list \<times> 'c list list"

type_synonym 'c engine = "string \<Rightarrow> string + 'c frame"

definition read_sql :: "string \<Rightarrow> 'c engine \<Rightarrow> (string + 'c frame) \<times> string list" where
  "read_sql query engine = (engine query, [query])"

section \<open>The four loaders\<close>

text \<open>
  The query of a loader is a triple-quoted literal: its lines joined by line feeds,
  beginning with the empty line after the opening quotes and ending with the indentation
  before the closing quotes. Bytes outside printable ASCII, and the two quote characters,
  are written by their codes.
\<close>

definition join_lines :: "string list \<Rightarrow> string" where
  "join_lines ls = concat (map (\<lambda>l. l @ [CHR 0x0A]) (butlast ls)) @ last ls"

definition ambulatory_query :: string where
  "ambulatory_query = join_lines
     ['''',
      ''    SELECT '',
      ''        municipio_codigo_com_dv as codigo_municipio,'',
      ''        municipio_nome as nome_municipio,'',
      ''        regiao_nome,'',
      ''        uf_sigla,'',
      ''        ano_producao_ambulatorial,'',
      ''        qtd_total,'',
      ''        vl_total,'',
      ''        qtd_total_subgrupos'',
      ''    FROM sus_procedimento_ambulatorial '',
      ''    WHERE ano_producao_ambulatorial >= '' @ [CHR 0x27] @ ''2020'' @ [CHR 0x27],
      ''    '']"

definition population_query :: string where
  "population_query = join_lines
     ['''',
      ''    SELECT '',
      ''        '' @ [CHR 0x22] @ ''ANO'' @ [CHR 0x22] @ '','',
      ''        '' @ [CHR 0x22] @ ''CO_MUNICIPIO'' @ [CHR 0x22] @ '','',
      ''        '' @ [CHR 0x22] @ ''IDADE'' @ [CHR 0x22] @ '', '',
      ''        '' @ [CHR 0x22] @ ''SEXO'' @ [CHR 0x22] @ '','',
      ''        '' @ [CHR 0x22] @ ''TOTAL'' @ [CHR 0x22] @ '' as populacao'',
      ''    FROM '' @ [CHR 0x22] @ ''Censo_20222_Populacao_Idade_Sexo'' @ [CHR 0x22] @ '' '',
      ''    LIMIT 100000'',
      ''    '']"

definition economic_query :: string where
  "economic_query = join_lines
     ['''',
      ''    SELECT '',
      ''        codigo_municipio_dv,'',
      ''        ano_pib,'',
      ''        vl_pib,'',
      ''        vl_pib_per_capta,'',
      ''        vl_servicos'',
      ''    FROM pib_municipios '',
      ''    WHERE ano_pib >= '' @ [CHR 0x27] @ ''2020'' @ [CHR 0x27],
      ''    LIMIT 50000'',
      ''    '']"

definition municipio_query :: string where
  "municipio_query = join_lines
     ['''',
      ''    SELECT '',
      ''        codigo_municipio_dv as codigo_municipio,'',
      ''        nome_municipio,'',
      ''        municipio_capital,'',
      ''        latitude,'',
      ''        longitude'',
      ''        -- Removidas uf_sigla e regiao_nome que n'' @ [CHR 0xC3] @ [CHR 0xA3] @ ''o existem na tabela'',
      ''    FROM municipio '',
      ''    LIMIT 5000'',
      ''    '']"

definition load_ambulatory_data :: "'c engine \<Rightarrow> (string + 'c frame) \<times> string list" where
  "load_ambulatory_data engine = read_sql ambulatory_query engine"

definition load_population_data :: "'c engine \<Rightarrow> (string + 'c frame) \<times> string list" where
  "load_population_data engine = read_sql population_query engine"

definition load_economic_data :: "'c engine \<Rightarrow> (string + 'c frame) \<times> string list" where
  "load_economic_data engine = read_sql economic_query engine"

definition load_municipio_data :: "'c engine \<Rightarrow> (string + 'c frame) \<times> string list" where
  "load_municipio_data engine = read_sql municipio_query engine"

text \<open>
  The shape of a query: whether it caps the number of rows with a \<open>LIMIT\<close> clause, and
  whether it filters on the year with a \<open>WHERE\<close> clause comparing to \<open>'2020'\<close>.
\<close>

definition has_row_cap :: "string \<Rightarrow> bool" where
  "has_row_cap q = sublist ''LIMIT '' q"

definition has_year_filter :: "string \<Rightarrow> bool" where
  "has_year_filter q =
     (sublist ''WHERE '' q \<and> sublist (''>= '' @ [CHR 0x27] @ ''2020'' @ [CHR 0x27]) q)"

definition cap_only :: "string \<Rightarrow> bool" where
  "cap_only q = (has_row_cap q \<and> \<not> has_year_filter q)"

definition filter_and_cap :: "string \<Rightarrow> bool" where
  "filter_and_cap q = (has_row_cap q \<and> has_year_filter q)"

definition filter_only :: "string \<Rightarrow> bool" where
  "filter_only q = (\<not> has_row_cap q \<and> has_year_filter q)"

definition unfiltered :: "string \<Rightarrow> bool" where
  "unfiltered q = (\<not> has_row_cap q \<and> \<not> has_year_filter q)"

definition loader_queries :: "string list" where
  "loader_queries = [ambulatory_query, population_query, economic_query, municipio_query]"

definition count_queries :: "(string \<Rightarrow> bool) \<Rightarrow> nat" where
  "count_queries shape = length (filter shape loader_queries)"

section \<open>Schema introspection\<close>

text \<open>
  \<open>explore_database_structure\<close> (lines 89-108). The entry of a table is the dictionary
  built in the \<open>try\<close> branch (the column names and the first row, or \<open>None\<close> when the
  sample is empty) or the one built in the \<open>except\<close> branch (the message of whatever
  was raised in the \<open>try\<close> branch). The loop over the tables updates the dictionary
  \<open>structure_info\<close>.
\<close>

datatype 'c info = Info "string list" "'c list option" | Error string

definition tables :: "string list" where
  "tables = [''municipio'', ''sus_procedimento_ambulatorial'', ''pib_municipios'',
     ''Censo_20222_Populacao_Idade_Sexo'']"

definition sample_query :: "string \<Rightarrow> string" where
  "sample_query table = ''SELECT * FROM '' @ table @ '' LIMIT 1''"

definition empty :: "'c frame \<Rightarrow> bool" where
  "empty df = (fst df = [] \<or> snd df = [])"

text \<open>\<open>sample_df.iloc[0]\<close> raises IndexError on a frame without rows.\<close>

definition iloc0 :: "'c frame \<Rightarrow> string + 'c list" where
  "iloc0 df =
     (case snd df of
        [] \<Rightarrow> Inl ''single positional indexer is out-of-bounds''
      | row # _ \<Rightarrow> Inr row)"

definition table_info :: "'c engine \<Rightarrow> string \<Rightarrow> 'c info" where
  "table_info engine table =
     (case fst (read_sql (sample_query table) engine) of
        Inr sample_df \<Rightarrow>
          (if \<not> empty sample_df then
             (case iloc0 sample_df of
                Inr row \<Rightarrow> Info (fst sample_df) (Some row)
              | Inl e \<Rightarrow> Error e)
           else Info (fst sample_df) None)
      | Inl e \<Rightarrow> Error e)"

fun explore_loop :: "'c engine \<Rightarrow> string list \<Rightarrow> (string \<rightharpoonup> 'c info) \<Rightarrow> (string \<rightharpoonup> 'c info)" where
  "explore_loop engine [] structure_info = structure_info"
| "explore_loop engine (table # rest) structure_info =
     explore_loop engine rest (structure_info(table \<mapsto> table_info engine table))"

definition explore_database_structure :: "'c engine \<Rightarrow> (string \<rightharpoonup> 'c info)" where
  "explore_database_structure engine = explore_loop engine tables Map.empty"

text \<open>
  Two sample engines: one on which the table \<open>pib_municipios\<close> does not exist, and one
  on which every table exists. On both, \<open>municipio\<close> has no row.
\<close>

definition engine_sem_pib :: "nat engine" where
  "engine_sem_pib q =
     (if q = sample_query ''pib_municipios'' then Inl ''relation does not exist''
      else if q = sample_query ''municipio'' then Inr ([''codigo'', ''nome''], [])
      else Inr ([''a'', ''b''], [[1, 2]]))"

definition engine_ok :: "nat engine" where
  "engine_ok q =
     (if q = sample_query ''municipio'' then Inr ([''codigo'', ''nome''], [])
      else Inr ([''a'', ''b''], [[1, 2]]))"

section \<open>The CSV export\<close>

text \<open>
  \<open>df_ambulatorial.to_csv(index=False)\<close> (line 303) with the defaults of pandas: a
  header line with the column names, then one line per row; cells separated by commas;
  a missing cell written as the empty string; a cell that contains a comma, a double
  quote or a line feed enclosed in double quotes, each double quote inside it doubled
  (the csv module's minimal quoting); every line ended by a line feed. Whether a cell
  that contains a carriage return is quoted too depends on the patch level of the
  Python interpreter (3.11.2 does not quote it, 3.11.10 does): \<open>quote_cr\<close> tells which.
  A line made of one empty cell is written as two double quotes. The formatting of a
  number, \<open>fmt\<close>, is left open.
\<close>

abbreviation DQ :: char where "DQ \<equiv> CHR 0x22"

abbreviation COMMA :: char where "COMMA \<equiv> CHR 0x2C"

abbreviation LF :: char where "LF \<equiv> CHR 0x0A"

abbreviation CR :: char where "CR \<equiv> CHR 0x0D"

definition special :: "bool \<Rightarrow> char \<Rightarrow> bool" where
  "special quote_cr c = (c = COMMA \<or> c = DQ \<or> c = LF \<or> (quote_cr \<and> c = CR))"

definition escape_quotes :: "string \<Rightarrow> string" where
  "escape_quotes s = concat (map (\<lambda>c. if c = DQ then [DQ, DQ] else [c]) s)"

definition quote_field :: "string \<Rightarrow> string" where
  "quote_field s = DQ # escape_quotes s @ [DQ]"

definition csv_field :: "bool \<Rightarrow> string \<Rightarrow> string" where
  "csv_field quote_cr s = (if list_ex (special quote_cr) s then quote_field s else s)"

fun join_fields :: "string list \<Rightarrow> string" where
  "join_fields [] = []"
| "join_fields [f] = f"
| "join_fields (f # g # fs) = f @ COMMA # join_fields (g # fs)"

definition writerow :: "bool \<Rightarrow> string list \<Rightarrow> string" where
  "writerow quote_cr cells =
     (if cells = [[]] then [DQ, DQ] else join_fields (map (csv_field quote_cr) cells)) @ [LF]"

definition text_cell :: "string option \<Rightarrow> string" where
  "text_cell c = (case c of None \<Rightarrow> [] | Some s \<Rightarrow> s)"

definition number_cell :: "(rat \<Rightarrow> string) \<Rightarrow> rat option \<Rightarrow> string" where
  "number_cell fmt c = (case c of None \<Rightarrow> [] | Some x \<Rightarrow> fmt x)"

definition row_cells :: "(rat \<Rightarrow> string) \<Rightarrow> ambulatory_record \<Rightarrow> string list" where
  "row_cells fmt r =
     [text_cell (codigo_municipio r), text_cell (nome_municipio r), text_cell (regiao_nome r),
      text_cell (uf_sigla r), text_cell (ano_producao_ambulatorial r),
      number_cell fmt (qtd_total r), number_cell fmt (vl_total r),
      number_cell fmt (qtd_total_subgrupos r)]"

definition to_csv :: "bool \<Rightarrow> (rat \<Rightarrow> string) \<Rightarrow> dataframe \<Rightarrow> string" where
  "to_csv quote_cr fmt df =
     concat (map (writerow quote_cr) (ambulatory_columns # map (row_cells fmt) df))"

text \<open>
  Lines 302-303: the export is computed only when the table is not empty.
\<close>

definition csv_data :: "bool \<Rightarrow> (rat \<Rightarrow> string) \<Rightarrow> dataframe \<Rightarrow> string option" where
  "csv_data quote_cr fmt df = (if df \<noteq> [] then Some (to_csv quote_cr fmt df) else None)"

text \<open>
  Reading a CSV text back is not part of the program. It is modelled as the usual
  reader of the format (as \<open>pd.read_csv\<close> does it): a scan of the text that splits it
  into records at line ends, a line feed or a carriage return, and into fields at
  commas, except inside double quotes, where a doubled double quote stands for one; an
  empty line is skipped. The first record is the header, the others are the rows; a
  text without any record has no table.
\<close>

datatype pstate = StartField | InField | InQuoted | QuoteInQuoted

fun tokenize :: "pstate \<Rightarrow> string \<Rightarrow> string list \<Rightarrow> string \<Rightarrow> string list list" where
  "tokenize st fld row [] = (if st = StartField \<and> row = [] then [] else [row @ [fld]])"
| "tokenize StartField fld row (c # cs) =
     (if c = DQ then tokenize InQuoted [] row cs
      else if c = COMMA then tokenize StartField [] (row @ [[]]) cs
      else if c = LF \<or> c = CR then
        (if row = [] then tokenize StartField [] [] cs
         else (row @ [[]]) # tokenize StartField [] [] cs)
      else tokenize InField [c] row cs)"
| "tokenize InField fld row (c # cs) =
     (if c = COMMA then tokenize StartField [] (row @ [fld]) cs
      else if c = LF \<or> c = CR then (row @ [fld]) # tokenize StartField [] [] cs
      else tokenize InField (fld @ [c]) row cs)"
| "tokenize InQuoted fld row (c # cs) =
     (if c = DQ then tokenize QuoteInQuoted fld row cs
      else tokenize InQuoted (fld @ [c]) row cs)"
| "tokenize QuoteInQuoted fld row (c # cs) =
     (if c = DQ then tokenize InQuoted (fld @ [c]) row cs
      else if c = COMMA then tokenize StartField [] (row @ [fld]) cs
      else if c = LF \<or> c = CR then (row @ [fld]) # tokenize StartField [] [] cs
      else tokenize InField (fld @ [c]) row cs)"

definition read_csv :: "string \<Rightarrow> (string list \<times> string list list) option" where
  "read_csv text =
     (case tokenize StartField [] [] text of [] \<Rightarrow> None | header # rows \<Rightarrow> Some (header, rows))"

text \<open>
  A cell is read back as written when the writer quotes carriage returns or the cell
  has none.
\<close>

definition safe_cell :: "bool \<Rightarrow> string \<Rightarrow> bool" where
  "safe_cell quote_cr s = (quote_cr \<or> CR \<notin> set s)"

text \<open>
  Sample tables: one whose cells hold a carriage return, one whose cells hold a comma,
  double quotes and a line feed; and a number formatting that writes a decimal comma.
\<close>

definition fmt_virgula :: "rat \<Rightarrow> string" where
  "fmt_virgula x = (if x = 100 then ''100.0'' else if x = 10 then ''10.0'' else ''1,5'')"

definition retorno_de_carro :: dataframe where
  "retorno_de_carro =
     [\<lparr>codigo_municipio = Some ''3550308'', nome_municipio = Some (''Sao'' @ [CR] @ ''Paulo''),
       regiao_nome = Some ''Sudeste'', uf_sigla = Some ''SP'',
       ano_producao_ambulatorial = Some ''2020'', qtd_total = Some 10, vl_total = Some 100,
       qtd_total_subgrupos = None\<rparr>]"

definition virgula :: dataframe where
  "virgula =
     [\<lparr>codigo_municipio = Some ''3550308'', nome_municipio = Some (''Santa '' @ [DQ] @ ''B'' @ [DQ] @ '', SP''),
       regiao_nome = Some ''Sudeste'', uf_sigla = Some ''SP'',
       ano_producao_ambulatorial = Some ''2020'', qtd_total = Some 10, vl_total = Some 100,
       qtd_total_subgrupos = None\<rparr>,
      \<lparr>codigo_municipio = None, nome_municipio = Some (''Duas'' @ [LF] @ ''linhas''),
       regiao_nome = None, uf_sigla = None,
       ano_producao_ambulatorial = None, qtd_total = None, vl_total = Some (3 / 2),
       qtd_total_subgrupos = None\<rparr>]"

section \<open>Grouping\<close>

lemma set_groupby_keys: "set (groupby_keys key df) = {k. \<exists>r\<in>set df. key r = Some k}"
  by (force simp: groupby_keys_def List.map_filter_def image_iff)

lemma distinct_groupby_keys: "distinct (groupby_keys key df)"
  by (simp add: groupby_keys_def)

lemma sorted_groupby_keys: "sorted (groupby_keys key df)"
  by (simp add: groupby_keys_def)

lemma length_groupby_keys:
  "length (groupby_keys key df) = card {k. \<exists>r\<in>set df. key r = Some k}"
  using distinct_card [OF distinct_groupby_keys, of key df] by (simp add: set_groupby_keys)

text \<open>Adding up group by group visits each row whose key is in \<open>K\<close> once.\<close>

lemma sum_groups:
  fixes f :: "'r \<Rightarrow> 'a::comm_monoid_add"
  assumes "finite K"
  shows "(\<Sum>k\<in>K. sum_list (map f (filter (\<lambda>r. key r = Some k) xs)))
         = sum_list (map f (filter (\<lambda>r. key r \<in> Some ` K) xs))"
proof (induction xs)
  case Nil
  show ?case by simp
next
  case (Cons x xs)
  have split: "(\<Sum>k\<in>K. sum_list (map f (filter (\<lambda>r. key r = Some k) (x # xs))))
      = (\<Sum>k\<in>K. (if key x = Some k then f x else 0))
        + (\<Sum>k\<in>K. sum_list (map f (filter (\<lambda>r. key r = Some k) xs)))"
  proof -
    have "(\<Sum>k\<in>K. sum_list (map f (filter (\<lambda>r. key r = Some k) (x # xs))))
      = (\<Sum>k\<in>K. (if key x = Some k then f x else 0)
           + sum_list (map f (filter (\<lambda>r. key r = Some k) xs)))"
      by (rule sum.cong) auto
    then show ?thesis by (simp add: sum.distrib)
  qed
  have head: "(\<Sum>k\<in>K. (if key x = Some k then f x else 0))
      = (if key x \<in> Some ` K then f x else 0)"
  proof (cases "key x")
    case None
    then show ?thesis by simp
  next
    case (Some k0)
    have "(\<Sum>k\<in>K. (if k0 = k then f x else 0)) = (if k0 \<in> K then f x else 0)"
      using assms by (rule sum.delta')
    with Some show ?thesis by (simp add: image_iff)
  qed
  show ?case unfolding split head Cons.IH by simp
qed

lemma mset_as_sum_list: "mset xs = sum_list (map (\<lambda>x. {#x#}) xs)"
  by (induction xs) simp_all

text \<open>The groups, one after the other, hold the rows that have a key, each once.\<close>

lemma mset_groups:
  "mset (concat (map (group_rows key df) (groupby_keys key df)))
   = mset (filter (\<lambda>r. key r \<noteq> None) df)"
proof -
  let ?K = "set (groupby_keys key df)"
  have "mset (concat (map (group_rows key df) (groupby_keys key df)))
        = sum_list (map (\<lambda>k. mset (group_rows key df k)) (groupby_keys key df))"
    by (simp add: mset_concat comp_def)
  also have "\<dots> = (\<Sum>k\<in>?K. mset (group_rows key df k))"
    by (rule sum_list_distinct_conv_sum_set [OF distinct_groupby_keys])
  also have "\<dots> = (\<Sum>k\<in>?K. sum_list (map (\<lambda>x. {#x#}) (filter (\<lambda>r. key r = Some k) df)))"
    by (simp only: group_rows_def mset_as_sum_list [symmetric])
  also have "\<dots> = sum_list (map (\<lambda>x. {#x#}) (filter (\<lambda>r. key r \<in> Some ` ?K) df))"
    by (rule sum_groups) simp
  also have "filter (\<lambda>r. key r \<in> Some ` ?K) df = filter (\<lambda>r. key r \<noteq> None) df"
    by (rule filter_cong) (auto simp: set_groupby_keys image_iff)
  finally show ?thesis by (simp only: mset_as_sum_list [symmetric])
qed

lemma map_filter_concat:
  "List.map_filter f (concat xss) = concat (map (List.map_filter f) xss)"
  by (induction xss) (simp_all add: List.map_filter_def)

lemma mset_map_filter_cong:
  "mset xs = mset ys \<Longrightarrow> mset (List.map_filter f xs) = mset (List.map_filter f ys)"
  by (simp add: List.map_filter_def)

lemma parcelas_por_regiao_conv:
  "parcelas_por_regiao df
   = List.map_filter vl_total (concat (map (group_rows regiao_nome df) (groupby_keys regiao_nome df)))"
  by (simp add: parcelas_por_regiao_def map_filter_concat comp_def)

section \<open>The groups of the by-region aggregate\<close>

text \<open>
  C3, as the spec states it: for every non-empty table, the by-region sums of the value
  column add up to the sum of the value column of the table. It fails on a table with a
  row whose region name is missing: \<open>groupby\<close> leaves that row out of every group. Here
  the table has a row of region Norte with the value 50 and a row without region name
  with the value 100: the by-region aggregate of lines 191-201 has the one row of Norte
  and sums to 50, the table sums to 150.
\<close>

theorem regiao_sum_counterexample:
  "meio_sem_regiao \<noteq> []
   \<and> investimento_regiao_agg meio_sem_regiao
     = [(''Norte'', \<lparr>investimento_total = 50, procedimentos_total = 5, municipios = 1\<rparr>)]
   \<and> total_investimento (investimento_regiao_agg meio_sem_regiao) = 50
   \<and> agg_sum vl_total meio_sem_regiao = 150"
  by code_simp

text \<open>
  C3, amended: for every table in which no row's region name is missing, the groups of
  the by-region aggregate partition the rows: taken one after the other, the groups
  hold every row of the table exactly once, so that the value cells added up group by
  group are the value cells of the whole table, each once (no record is double-counted
  or dropped). The equality is one of the numbers added, not of the float64 sums, which
  add them in different orders.
\<close>

theorem regiao_groups_partition:
  assumes "\<forall>r\<in>set df. regiao_nome r \<noteq> None"
  shows "mset (concat (map (group_rows regiao_nome df) (groupby_keys regiao_nome df))) = mset df
         \<and> mset (parcelas_por_regiao df) = mset (List.map_filter vl_total df)"
proof -
  have "filter (\<lambda>r. regiao_nome r \<noteq> None) df = df"
    using assms by (simp add: filter_id_conv)
  then have rows: "mset (concat (map (group_rows regiao_nome df) (groupby_keys regiao_nome df)))
                   = mset df"
    using mset_groups [of regiao_nome df] by simp
  then have "mset (parcelas_por_regiao df) = mset (List.map_filter vl_total df)"
    unfolding parcelas_por_regiao_conv by (rule mset_map_filter_cong)
  with rows show ?thesis by simp
qed

text \<open>
  The theorem at the table \<open>doze_estados\<close>, whose regions are interleaved: the cells
  come in another order group by group, and are the same cells.
\<close>

theorem regiao_groups_partition_witness:
  "mset (concat (map (group_rows regiao_nome doze_estados) (groupby_keys regiao_nome doze_estados)))
     = mset doze_estados
   \<and> mset (parcelas_por_regiao doze_estados) = mset (List.map_filter vl_total doze_estados)
   \<and> parcelas_por_regiao doze_estados
       = [50, 200, 50, 300, 50, 50, 900, 700, 800, 100, 400, 400, 50]
   \<and> List.map_filter vl_total doze_estados
       = [900, 50, 50, 300, 50, 200, 700, 50, 400, 800, 400, 50, 100]"
proof -
  have h: "\<forall>r\<in>set doze_estados. regiao_nome r \<noteq> None"
    by (simp add: doze_estados_def linha_def)
  have v: "parcelas_por_regiao doze_estados
           = [50, 200, 50, 300, 50, 50, 900, 700, 800, 100, 400, 400, 50]"
    "List.map_filter vl_total doze_estados
           = [900, 50, 50, 300, 50, 200, 700, 50, 400, 800, 400, 50, 100]"
    by code_simp+
  from regiao_groups_partition [OF h] have
    "mset (concat (map (group_rows regiao_nome doze_estados) (groupby_keys regiao_nome doze_estados)))
       = mset doze_estados
     \<and> mset (parcelas_por_regiao doze_estados) = mset (List.map_filter vl_total doze_estados)" .
  with v show ?thesis by (simp only: simp_thms)
qed

lemma nunique_card: "nunique col rows = card {c. \<exists>r\<in>set rows. col r = Some c}"
proof -
  have "set (List.map_filter col rows) = {c. \<exists>r\<in>set rows. col r = Some c}"
    by (force simp: List.map_filter_def image_iff)
  then show ?thesis
    by (simp add: nunique_def length_remdups_card_conv)
qed

lemma groupby_keys_sorted_list:
  "groupby_keys key df = sorted_list_of_set {k. \<exists>r\<in>set df. key r = Some k}"
proof -
  have "set (List.map_filter key df) = {k. \<exists>r\<in>set df. key r = Some k}"
    by (force simp: List.map_filter_def image_iff)
  then show ?thesis
    using sorted_list_of_set_sort_remdups [of "List.map_filter key df"]
    by (simp add: groupby_keys_def)
qed

lemma map_fst_groupby_agg: "map fst (groupby_agg key df) = groupby_keys key df"
  by (simp add: groupby_agg_def comp_def)

lemma in_groupby_agg:
  "(k, t) \<in> set (groupby_agg key df) \<longleftrightarrow>
     (\<exists>r\<in>set df. key r = Some k) \<and> t = agg_totals (group_rows key df k)"
  by (auto simp: groupby_agg_def set_groupby_keys)

lemma in_investimento_regiao:
  "(k, d) \<in> set (investimento_regiao df) \<longleftrightarrow>
     (\<exists>r\<in>set df. regiao_nome r = Some k)
     \<and> d = add_detalhe (agg_totals (group_rows regiao_nome df k))"
  by (auto simp: investimento_regiao_def investimento_regiao_agg_def groupby_agg_def
      set_groupby_keys)

lemma group_rows_card:
  "{c. \<exists>r\<in>set (group_rows key df k). col r = Some c}
   = {c. \<exists>r\<in>set df. key r = Some k \<and> col r = Some c}"
  by (auto simp: group_rows_def)

lemma nunique_pos:
  assumes "r \<in> set rows" and "col r = Some c"
  shows "0 < nunique col rows"
proof -
  have "c \<in> set (remdups (List.map_filter col rows))"
    using assms by (force simp: List.map_filter_def image_iff)
  then show ?thesis
    unfolding nunique_def by (metis length_pos_if_in_set)
qed

lemma group_municipios_pos:
  assumes "\<forall>r\<in>set df. codigo_municipio r \<noteq> None"
    and "(k, t) \<in> set (groupby_agg key df)"
  shows "0 < municipios t"
proof -
  from assms(2) obtain r where r: "r \<in> set df" "key r = Some k"
    and t: "t = agg_totals (group_rows key df k)"
    by (auto simp: in_groupby_agg)
  from assms(1) r(1) obtain c where c: "codigo_municipio r = Some c"
    by auto
  have "r \<in> set (group_rows key df k)"
    using r by (simp add: group_rows_def)
  then have "0 < nunique codigo_municipio (group_rows key df k)"
    using c by (rule nunique_pos)
  then show ?thesis by (simp add: t agg_totals_def)
qed

section \<open>The rows of the by-region aggregate\<close>

lemma map_fst_investimento_regiao_com:
  "map fst (investimento_regiao_com ar df) = groupby_keys regiao_nome df"
  by (simp add: investimento_regiao_com_def comp_def)

lemma in_investimento_regiao_com:
  "(k, d) \<in> set (investimento_regiao_com ar df) \<longleftrightarrow>
     (\<exists>r\<in>set df. regiao_nome r = Some k)
     \<and> d = add_detalhe_com ar (agg_totals_com ar (group_rows regiao_nome df k))"
  by (auto simp: investimento_regiao_com_def set_groupby_keys)

text \<open>With the exact arithmetic the table is the one of \<open>investimento_regiao\<close>.\<close>

lemma arredonda_exata: "arredonda exata = round_f"
  and quociente_exata: "quociente exata = truediv_f"
  and soma_exata: "soma exata xs = Fin (sum_list xs)"
  by (simp_all add: exata_def)

lemma add_detalhe_exata:
  "add_detalhe_com exata (agg_totals_com exata rows) = as_float (add_detalhe (agg_totals rows))"
  by (simp add: add_detalhe_com_def agg_totals_com_def add_detalhe_def agg_totals_def
      as_float_def Let_def arredonda_exata quociente_exata soma_exata agg_sum_def)

lemma investimento_regiao_exata:
  "investimento_regiao_com exata df = map (\<lambda>(k, d). (k, as_float d)) (investimento_regiao df)"
  by (simp add: investimento_regiao_com_def investimento_regiao_def investimento_regiao_agg_def
      groupby_agg_def add_detalhe_exata comp_def)

text \<open>
  C1, as the spec states it, read with the rounding to 2 decimals that the spec asks of
  every ratio: the value-per-municipality ratio of a region is the sum of the value
  column divided by the number of distinct municipality codes. The code divides the sum
  as stored, after line 229 has rounded it. Two municipalities of one region with the
  values 0.014 and 0: the stored sum is 0.01 and the stored ratio is 0.00, whereas the
  sum 0.014 divided by 2 is 0.007, which rounds to 0.01.
\<close>

theorem regiao_ratio_counterexample:
  "investimento_regiao catorze_milesimos =
     [(''Norte'', \<lparr>investimento_total = 1 / 100, procedimentos_total = 16, municipios = 2,
         investimento_por_municipio = Fin 0,
         procedimentos_por_municipio = Fin 8\<rparr>)]
   \<and> agg_sum vl_total (group_rows regiao_nome catorze_milesimos ''Norte'') = 14 / 1000
   \<and> nunique codigo_municipio (group_rows regiao_nome catorze_milesimos ''Norte'') = 2
   \<and> round_f (truediv (14 / 1000) 2) = Fin (1 / 100)
   \<and> Fin 0 \<noteq> Fin (1 / 100)"
  by code_simp

text \<open>
  C1, amended: whatever the float64 operations give, the by-region aggregate has one
  row for each region name that occurs in the table (rows with a missing region name
  belong to no group), in ascending order. The row of a region holds the sum of the
  value column over the rows of that region, rounded to 2 decimals; the sum of the
  quantity column; the number of distinct municipality codes; and the two ratios
  obtained by dividing the value sum as stored (already rounded) and the quantity sum
  by that number, each quotient rounded to 2 decimals.
\<close>

theorem investimento_regiao_rows:
  "map fst (investimento_regiao_com ar df)
     = sorted_list_of_set {k. \<exists>r\<in>set df. regiao_nome r = Some k}
   \<and> (\<forall>(k, d) \<in> set (investimento_regiao_com ar df).
        investimento_total d
          = arredonda ar (soma ar (List.map_filter vl_total (group_rows regiao_nome df k)))
        \<and> procedimentos_total d
          = soma ar (List.map_filter qtd_total (group_rows regiao_nome df k))
        \<and> municipios d
          = card {c. \<exists>r\<in>set df. regiao_nome r = Some k \<and> codigo_municipio r = Some c}
        \<and> investimento_por_municipio d
          = arredonda ar (quociente ar (investimento_total d) (municipios d))
        \<and> procedimentos_por_municipio d
          = arredonda ar (quociente ar (procedimentos_total d) (municipios d)))"
proof (intro conjI)
  show "map fst (investimento_regiao_com ar df)
        = sorted_list_of_set {k. \<exists>r\<in>set df. regiao_nome r = Some k}"
    by (simp add: map_fst_investimento_regiao_com groupby_keys_sorted_list)
next
  show "\<forall>(k, d) \<in> set (investimento_regiao_com ar df).
        investimento_total d
          = arredonda ar (soma ar (List.map_filter vl_total (group_rows regiao_nome df k)))
        \<and> procedimentos_total d
          = soma ar (List.map_filter qtd_total (group_rows regiao_nome df k))
        \<and> municipios d
          = card {c. \<exists>r\<in>set df. regiao_nome r = Some k \<and> codigo_municipio r = Some c}
        \<and> investimento_por_municipio d
          = arredonda ar (quociente ar (investimento_total d) (municipios d))
        \<and> procedimentos_por_municipio d
          = arredonda ar (quociente ar (procedimentos_total d) (municipios d))"
  proof (clarify, intro conjI)
    fix k d
    assume "(k, d) \<in> set (investimento_regiao_com ar df)"
    then have d: "d = add_detalhe_com ar (agg_totals_com ar (group_rows regiao_nome df k))"
      by (simp add: in_investimento_regiao_com)
    show "investimento_total d
          = arredonda ar (soma ar (List.map_filter vl_total (group_rows regiao_nome df k)))"
      by (simp add: d add_detalhe_com_def agg_totals_com_def Let_def)
    show "procedimentos_total d
          = soma ar (List.map_filter qtd_total (group_rows regiao_nome df k))"
      by (simp add: d add_detalhe_com_def agg_totals_com_def Let_def)
    show "municipios d
          = card {c. \<exists>r\<in>set df. regiao_nome r = Some k \<and> codigo_municipio r = Some c}"
      by (simp add: d add_detalhe_com_def agg_totals_com_def Let_def nunique_card group_rows_card)
    show "investimento_por_municipio d
          = arredonda ar (quociente ar (investimento_total d) (municipios d))"
      by (simp add: d add_detalhe_com_def Let_def)
    show "procedimentos_por_municipio d
          = arredonda ar (quociente ar (procedimentos_total d) (municipios d))"
      by (simp add: d add_detalhe_com_def Let_def)
  qed
qed

text \<open>
  The theorem at the table \<open>norte_sul\<close> with the exact arithmetic: its regions, and the
  row of region Norte.
\<close>

theorem investimento_regiao_rows_witness:
  "map fst (investimento_regiao_com exata norte_sul) = [''Norte'', ''Sul'']
   \<and> investimento_total
        (add_detalhe_com exata (agg_totals_com exata (group_rows regiao_nome norte_sul ''Norte'')))
       = Fin 150
   \<and> municipios
        (add_detalhe_com exata (agg_totals_com exata (group_rows regiao_nome norte_sul ''Norte'')))
       = 2
   \<and> investimento_por_municipio
        (add_detalhe_com exata (agg_totals_com exata (group_rows regiao_nome norte_sul ''Norte'')))
       = Fin 75"
proof -
  let ?d = "add_detalhe_com exata (agg_totals_com exata (group_rows regiao_nome norte_sul ''Norte''))"
  have keys: "map fst (investimento_regiao_com exata norte_sul) = [''Norte'', ''Sul'']"
    by code_simp
  have mem: "(''Norte'', ?d) \<in> set (investimento_regiao_com exata norte_sul)"
    by code_simp
  have s: "arredonda exata (soma exata (List.map_filter vl_total (group_rows regiao_nome norte_sul ''Norte'')))
           = Fin 150"
    by code_simp
  have n: "municipios ?d = 2"
    by code_simp
  have q: "arredonda exata (quociente exata (Fin 150) 2) = Fin 75"
    by code_simp
  from bspec [OF investimento_regiao_rows [of exata norte_sul, THEN conjunct2] mem]
  have "investimento_total ?d
          = arredonda exata (soma exata (List.map_filter vl_total (group_rows regiao_nome norte_sul ''Norte'')))
        \<and> investimento_por_municipio ?d
          = arredonda exata (quociente exata (investimento_total ?d) (municipios ?d))"
    by simp
  with keys s n q show ?thesis by simp
qed

section \<open>A group with no municipality code\<close>

text \<open>
  C5, as the spec states it: a group whose number of distinct municipality codes is
  zero gets a missing value for its ratios, the division being guarded. The code has no
  guard: it divides the columns, and a positive sum divided by zero is an infinity, which
  is not a missing value. Here the only row of region Norte has no municipality code.
\<close>

theorem zero_municipios_counterexample:
  "investimento_regiao sem_codigo =
     [(''Norte'', \<lparr>investimento_total = 100, procedimentos_total = 10, municipios = 0,
         investimento_por_municipio = PInf, procedimentos_por_municipio = PInf\<rparr>)]
   \<and> PInf \<noteq> NaN"
  by code_simp

text \<open>
  C5, amended: the division is not guarded and never raises. In a row of the by-region
  aggregate whose number of distinct municipality codes is zero, each ratio is NaN (the
  missing value) when its dividend is zero, plus infinity when the dividend is positive
  and minus infinity when it is negative. The by-state aggregate has no ratio columns.
\<close>

theorem zero_municipios_ratio:
  "\<forall>(k, d) \<in> set (investimento_regiao df). municipios d = 0 \<longrightarrow>
      investimento_por_municipio d
        = (if 0 < investimento_total d then PInf
           else if investimento_total d < 0 then NInf else NaN)
      \<and> procedimentos_por_municipio d
        = (if 0 < procedimentos_total d then PInf
           else if procedimentos_total d < 0 then NInf else NaN)"
proof clarify
  fix k d
  assume "(k, d) \<in> set (investimento_regiao df)" and z: "municipios d = 0"
  then obtain t where d: "d = add_detalhe t"
    by (auto simp: investimento_regiao_def)
  from z have "municipios t = 0"
    by (simp add: d add_detalhe_def Let_def)
  then show "investimento_por_municipio d
        = (if 0 < investimento_total d then PInf
           else if investimento_total d < 0 then NInf else NaN)
      \<and> procedimentos_por_municipio d
        = (if 0 < procedimentos_total d then PInf
           else if procedimentos_total d < 0 then NInf else NaN)"
    by (simp add: d add_detalhe_def Let_def truediv_def)
qed

text \<open>
  The theorem at the table \<open>sem_codigo\<close>: both ratios of region Norte are infinite.
\<close>

theorem zero_municipios_ratio_witness:
  "investimento_por_municipio
     (add_detalhe (agg_totals (group_rows regiao_nome sem_codigo ''Norte''))) = PInf
   \<and> procedimentos_por_municipio
     (add_detalhe (agg_totals (group_rows regiao_nome sem_codigo ''Norte''))) = PInf"
proof -
  let ?d = "add_detalhe (agg_totals (group_rows regiao_nome sem_codigo ''Norte''))"
  have mem: "(''Norte'', ?d) \<in> set (investimento_regiao sem_codigo)"
    by code_simp
  have z: "municipios ?d = 0" and v: "investimento_total ?d = 100"
    and q: "procedimentos_total ?d = 10"
    by code_simp+
  from bspec [OF zero_municipios_ratio [of sem_codigo] mem] z
  have "investimento_por_municipio ?d
        = (if 0 < investimento_total ?d then PInf
           else if investimento_total ?d < 0 then NInf else NaN)
      \<and> procedimentos_por_municipio ?d
        = (if 0 < procedimentos_total ?d then PInf
           else if procedimentos_total ?d < 0 then NInf else NaN)"
    by simp
  then show ?thesis by (simp add: v q)
qed

section \<open>Groups of a table without missing municipality codes\<close>

text \<open>
  C10: when no row of the table has a missing municipality code, every row of the
  by-region aggregate (before and after the detail columns, and with any arithmetic)
  and every row of the by-state aggregate counts at least one municipality, so no
  per-municipality ratio divides by zero.
\<close>

theorem municipios_at_least_one:
  assumes "\<forall>r\<in>set df. codigo_municipio r \<noteq> None"
  shows "(\<forall>(k, t) \<in> set (investimento_regiao_agg df). 1 \<le> municipios t)
       \<and> (\<forall>(k, d) \<in> set (investimento_regiao df). 1 \<le> municipios d)
       \<and> (\<forall>(k, d) \<in> set (investimento_regiao_com ar df). 1 \<le> municipios d)
       \<and> (\<forall>(k, t) \<in> set (dados_uf df). 1 \<le> municipios t)"
proof (intro conjI)
  show agg: "\<forall>(k, t) \<in> set (investimento_regiao_agg df). 1 \<le> municipios t"
  proof clarify
    fix k t
    assume "(k, t) \<in> set (investimento_regiao_agg df)"
    then have "0 < municipios t"
      using assms group_municipios_pos [of df k t regiao_nome]
      by (simp add: investimento_regiao_agg_def)
    then show "1 \<le> municipios t" by simp
  qed
  show "\<forall>(k, d) \<in> set (investimento_regiao df). 1 \<le> municipios d"
    using agg by (auto simp: investimento_regiao_def add_detalhe_def Let_def)
  show "\<forall>(k, d) \<in> set (investimento_regiao_com ar df). 1 \<le> municipios d"
  proof clarify
    fix k d
    assume "(k, d) \<in> set (investimento_regiao_com ar df)"
    then obtain r where r: "r \<in> set df" "regiao_nome r = Some k"
      and d: "d = add_detalhe_com ar (agg_totals_com ar (group_rows regiao_nome df k))"
      by (auto simp: in_investimento_regiao_com)
    from assms r(1) obtain c where c: "codigo_municipio r = Some c"
      by auto
    have "r \<in> set (group_rows regiao_nome df k)"
      using r by (simp add: group_rows_def)
    then have "0 < nunique codigo_municipio (group_rows regiao_nome df k)"
      using c by (rule nunique_pos)
    then show "1 \<le> municipios d"
      by (simp add: d add_detalhe_com_def agg_totals_com_def Let_def)
  qed
  show "\<forall>(k, t) \<in> set (dados_uf df). 1 \<le> municipios t"
  proof clarify
    fix k t
    assume "(k, t) \<in> set (dados_uf df)"
    then have "0 < municipios t"
      using assms group_municipios_pos [of df k t uf_sigla] by (simp add: dados_uf_def)
    then show "1 \<le> municipios t" by simp
  qed
qed

text \<open>
  The theorem at the table \<open>norte_sul\<close>: region Norte and state PA.
\<close>

theorem municipios_at_least_one_witness:
  "1 \<le> municipios (add_detalhe (agg_totals (group_rows regiao_nome norte_sul ''Norte'')))
   \<and> municipios (add_detalhe (agg_totals (group_rows regiao_nome norte_sul ''Norte''))) = 2
   \<and> 1 \<le> municipios (agg_totals (group_rows uf_sigla norte_sul ''PA''))"
proof -
  let ?d = "add_detalhe (agg_totals (group_rows regiao_nome norte_sul ''Norte''))"
  let ?t = "agg_totals (group_rows uf_sigla norte_sul ''PA'')"
  have h: "\<forall>r\<in>set norte_sul. codigo_municipio r \<noteq> None"
    by (simp add: norte_sul_def linha_def)
  have m1: "(''Norte'', ?d) \<in> set (investimento_regiao norte_sul)"
    by code_simp
  have m2: "(''PA'', ?t) \<in> set (dados_uf norte_sul)"
    by code_simp
  have n: "municipios ?d = 2"
    by code_simp
  from municipios_at_least_one [OF h, of exata] m1 m2
  have "1 \<le> municipios ?d \<and> 1 \<le> municipios ?t"
    by blast
  with n show ?thesis by simp
qed

section \<open>Rounding\<close>

text \<open>
  C7: every currency output of the by-region, by-state and by-year aggregates is to be
  rounded to 2 decimals. Line 229 rounds the value sum of the by-region table; nothing
  rounds the value sums of the by-state table (shown at line 266), of the ten largest
  states (line 252) or of the by-year aggregate (line 272). At the table \<open>milesimo\<close>,
  one row with the value 0.001, \<open>main\<close> runs without an exception; the by-region value
  is 0.00, and the by-state, top-10 and by-year values are 0.001, whose rounding is 0.
\<close>

theorem estado_e_ano_sem_arredondar:
  "investimento_regiao milesimo =
     [(''Norte'', \<lparr>investimento_total = 0, procedimentos_total = 10, municipios = 1,
         investimento_por_municipio = Fin 0, procedimentos_por_municipio = Fin 10\<rparr>)]
   \<and> dados_uf milesimo =
     [(''AM'', \<lparr>investimento_total = 1 / 1000, procedimentos_total = 10, municipios = 1\<rparr>)]
   \<and> top_estados milesimo = Inr (dados_uf milesimo)
   \<and> evolucao_anual milesimo = [(''2020'', \<lparr>vl_total_sum = 1 / 1000, qtd_total_sum = 10\<rparr>)]
   \<and> raised (main_analise milesimo) = None
   \<and> round2 (1 / 1000) = 0"
  by code_simp

section \<open>The empty table\<close>

text \<open>
  C4, as the spec states it: on the empty table every aggregate is the empty table. In
  \<open>main\<close> the region, state and year sections are guarded by
  \<open>not df_ambulatorial.empty\<close>: on the empty table no aggregate is computed, so there
  is no table at all, which is not the same as an empty one.
\<close>

theorem empty_table_counterexample:
  "por_regiao (main_analise []) = None \<and> por_estado (main_analise []) = None
   \<and> por_ano (main_analise []) = None \<and> None \<noteq> Some ([] :: (string \<times> rat detalhe) list)"
  by (simp add: main_analise_def por_ano_section_def)

text \<open>
  C4, amended: on the empty table \<open>main\<close> skips the by-region, by-state and by-year
  sections, so no aggregate is computed, and no exception is raised.
\<close>

theorem empty_table_no_aggregate:
  "main_analise [] = \<lparr>por_regiao = None, por_estado = None, por_ano = None, raised = None\<rparr>"
  by (simp add: main_analise_def por_ano_section_def)

section \<open>The ten largest states\<close>

lemma nlargest_rows_subset: "set (nlargest_rows n col tbl) \<subseteq> set tbl"
  using set_take_subset [of n "sort_key (\<lambda>r. - col r) tbl"] by (simp add: nlargest_rows_def)

lemma length_nlargest_rows: "length (nlargest_rows n col tbl) = min n (length tbl)"
  by (simp add: nlargest_rows_def min.commute)

lemma sorted_desc_sort_key:
  fixes col :: "'r \<Rightarrow> rat"
  shows "sorted_wrt (\<lambda>a b. col b \<le> col a) (sort_key (\<lambda>r. - col r) tbl)"
proof -
  have "sorted (map (\<lambda>r. - col r) (sort_key (\<lambda>r. - col r) tbl))"
    by (rule sorted_sort_key)
  then show ?thesis
    by (simp add: sorted_map)
qed

lemma nlargest_rows_descending: "sorted_wrt (\<lambda>a b. col b \<le> col a) (nlargest_rows n col tbl)"
  unfolding nlargest_rows_def by (rule sorted_wrt_take [OF sorted_desc_sort_key])

lemma nlargest_rows_stable:
  "prefix (filter (\<lambda>r. col r = v) (nlargest_rows n col tbl)) (filter (\<lambda>r. col r = v) tbl)"
proof -
  have "filter (\<lambda>r. - col r = - v) (sort_key (\<lambda>r. - col r) tbl)
        = filter (\<lambda>r. - col r = - v) tbl"
    by (rule sort_key_stable)
  then have eq: "filter (\<lambda>r. col r = v) (sort_key (\<lambda>r. - col r) tbl) = filter (\<lambda>r. col r = v) tbl"
    by simp
  have "prefix (filter (\<lambda>r. col r = v) (take n (sort_key (\<lambda>r. - col r) tbl)))
          (filter (\<lambda>r. col r = v) (sort_key (\<lambda>r. - col r) tbl))"
    by (rule filter_mono_prefix [OF take_is_prefix])
  then show ?thesis by (simp add: nlargest_rows_def eq)
qed

lemma nlargest_rows_dominates:
  assumes "distinct tbl" and "a \<in> set (nlargest_rows n col tbl)"
    and "b \<in> set tbl" and "b \<notin> set (nlargest_rows n col tbl)"
  shows "col b \<le> col a"
proof -
  let ?s = "sort_key (\<lambda>r. - col r) tbl"
  have "sorted_wrt (\<lambda>a b. col b \<le> col a) (take n ?s @ drop n ?s)"
    using sorted_desc_sort_key [of col tbl] by simp
  then have cross: "\<forall>x\<in>set (take n ?s). \<forall>y\<in>set (drop n ?s). col y \<le> col x"
    unfolding sorted_wrt_append by blast
  have "b \<in> set (take n ?s @ drop n ?s)"
    using assms(3) by simp
  then have "b \<in> set (drop n ?s)"
    using assms(4) unfolding nlargest_rows_def set_append by blast
  with cross assms(2) show ?thesis
    by (simp add: nlargest_rows_def)
qed

lemma distinct_groupby_agg: "distinct (groupby_agg key df)"
proof -
  have "distinct (map fst (groupby_agg key df))"
    by (simp add: map_fst_groupby_agg distinct_groupby_keys)
  then show ?thesis by (rule distinct_map [THEN iffD1, THEN conjunct1])
qed

lemma length_dados_uf: "length (dados_uf df) = card {u. \<exists>r\<in>set df. uf_sigla r = Some u}"
  by (simp add: dados_uf_def groupby_agg_def length_groupby_keys)

lemma top_estados_float:
  "\<exists>r\<in>set df. vl_total r \<noteq> None \<Longrightarrow>
   top_estados df = Inr (nlargest_rows 10 valor (dados_uf df))"
  by (auto simp: top_estados_def nlargest_def float_dtype_def list_ex_iff)

lemma top_estados_object:
  "\<forall>r\<in>set df. vl_total r = None \<Longrightarrow> top_estados df = Inl TypeError"
  by (auto simp: top_estados_def nlargest_def float_dtype_def list_ex_iff)

text \<open>
  C2, as the spec states it: for every table there is a top-10-by-state result with the
  properties below. On a table whose value cells are all missing, the value column of
  the by-state aggregate has dtype object and \<open>nlargest\<close> raises TypeError at line 252:
  \<open>main\<close> ends there, without a top-10.
\<close>

theorem top_estados_counterexample:
  "sem_valor \<noteq> [] \<and> top_estados sem_valor = Inl TypeError
   \<and> por_estado (main_analise sem_valor) = None
   \<and> raised (main_analise sem_valor) = Some TypeError"
  by code_simp

text \<open>
  C2, amended: for every table with at least one value cell that is not missing, the
  top-10-by-state result exists; its rows are rows of the by-state aggregate; there are
  min(10, number of distinct state abbreviations) of them; they are in descending order
  of the value sum; among the rows of any one value, those selected are the first ones
  of the by-state aggregate, in the order they have there (the grouping order); and no
  row left out has a larger value than a selected one.
\<close>

theorem top_estados_spec:
  assumes "\<exists>r\<in>set df. vl_total r \<noteq> None"
  shows "\<exists>largest. top_estados df = Inr largest
     \<and> set largest \<subseteq> set (dados_uf df)
     \<and> length largest = min 10 (card {u. \<exists>r\<in>set df. uf_sigla r = Some u})
     \<and> sorted_wrt (\<lambda>a b. valor b \<le> valor a) largest
     \<and> (\<forall>v. prefix (filter (\<lambda>r. valor r = v) largest)
                (filter (\<lambda>r. valor r = v) (dados_uf df)))
     \<and> (\<forall>a\<in>set largest. \<forall>b\<in>set (dados_uf df) - set largest. valor b \<le> valor a)"
proof -
  let ?l = "nlargest_rows 10 valor (dados_uf df)"
  have 0: "top_estados df = Inr ?l"
    using assms by (rule top_estados_float)
  have 1: "set ?l \<subseteq> set (dados_uf df)"
    by (rule nlargest_rows_subset)
  have 2: "length ?l = min 10 (card {u. \<exists>r\<in>set df. uf_sigla r = Some u})"
    by (simp add: length_nlargest_rows length_dados_uf)
  have 3: "sorted_wrt (\<lambda>a b. valor b \<le> valor a) ?l"
    by (rule nlargest_rows_descending)
  have 4: "\<forall>v. prefix (filter (\<lambda>r. valor r = v) ?l) (filter (\<lambda>r. valor r = v) (dados_uf df))"
    by (simp add: nlargest_rows_stable)
  have 5: "\<forall>a\<in>set ?l. \<forall>b\<in>set (dados_uf df) - set ?l. valor b \<le> valor a"
    using nlargest_rows_dominates [OF distinct_groupby_agg [of uf_sigla df], of _ 10 valor]
    by (auto simp: dados_uf_def)
  from 0 1 2 3 4 5 show ?thesis by blast
qed

text \<open>
  The theorem at the table \<open>doze_estados\<close>, twelve states of which five have the value
  50: there is room for three of them, and the first three in grouping order are taken.
\<close>

theorem top_estados_spec_witness:
  "top_estados doze_estados = Inr (nlargest_rows 10 valor (dados_uf doze_estados))
   \<and> length (nlargest_rows 10 valor (dados_uf doze_estados)) = 10
   \<and> valor (''PA'', agg_totals (group_rows uf_sigla doze_estados ''PA''))
       \<le> valor (''DF'', agg_totals (group_rows uf_sigla doze_estados ''DF''))
   \<and> prefix (filter (\<lambda>r. valor r = 50) (nlargest_rows 10 valor (dados_uf doze_estados)))
        (filter (\<lambda>r. valor r = 50) (dados_uf doze_estados))
   \<and> map fst (filter (\<lambda>r. valor r = 50) (nlargest_rows 10 valor (dados_uf doze_estados)))
       = [''AM'', ''BA'', ''DF'']
   \<and> map fst (filter (\<lambda>r. valor r = 50) (dados_uf doze_estados))
       = [''AM'', ''BA'', ''DF'', ''PA'', ''SC'']"
proof -
  let ?pa = "(''PA'', agg_totals (group_rows uf_sigla doze_estados ''PA''))"
  let ?df = "(''DF'', agg_totals (group_rows uf_sigla doze_estados ''DF''))"
  let ?l = "nlargest_rows 10 valor (dados_uf doze_estados)"
  have h: "\<exists>r\<in>set doze_estados. vl_total r \<noteq> None"
    by (simp add: doze_estados_def linha_def)
  have "length (dados_uf doze_estados) = 12"
    by code_simp
  then have c: "card {u. \<exists>r\<in>set doze_estados. uf_sigla r = Some u} = 12"
    by (simp add: length_dados_uf)
  have e: "top_estados doze_estados = Inr ?l"
    using h by (rule top_estados_float)
  have a: "?df \<in> set ?l"
    by code_simp
  have b: "?pa \<in> set (dados_uf doze_estados) - set ?l"
    by code_simp
  have t: "map fst (filter (\<lambda>r. valor r = 50) ?l) = [''AM'', ''BA'', ''DF'']"
    by code_simp
  have u: "map fst (filter (\<lambda>r. valor r = 50) (dados_uf doze_estados))
           = [''AM'', ''BA'', ''DF'', ''PA'', ''SC'']"
    by code_simp
  from top_estados_spec [OF h] e a b
  have "length ?l = min 10 (card {u. \<exists>r\<in>set doze_estados. uf_sigla r = Some u})
        \<and> valor ?pa \<le> valor ?df
        \<and> prefix (filter (\<lambda>r. valor r = 50) ?l) (filter (\<lambda>r. valor r = 50) (dados_uf doze_estados))"
    by auto
  with c e t u show ?thesis by simp
qed

section \<open>The queries of the loaders\<close>

lemma row_caps:
  "\<not> has_row_cap ambulatory_query" "has_row_cap population_query"
  "has_row_cap economic_query" "has_row_cap municipio_query"
  by code_simp+

lemma year_filters:
  "has_year_filter ambulatory_query" "\<not> has_year_filter population_query"
  "has_year_filter economic_query" "\<not> has_year_filter municipio_query"
  by code_simp+

text \<open>
  C6, as the spec states it: of the four queries, one has a row cap and no year filter,
  two have both, and one has neither. The counts in the code are two, one and none: the
  population and municipality queries have a cap only, the economic query has both, and
  the ambulatory query has a year filter and no cap.
\<close>

theorem loaders_shape_counterexample:
  "count_queries cap_only = 2 \<and> count_queries filter_and_cap = 1 \<and> count_queries unfiltered = 0"
  by (simp add: count_queries_def loader_queries_def cap_only_def filter_and_cap_def
      unfiltered_def row_caps year_filters)

text \<open>
  C6, amended: each of the four loaders sends exactly one statement, its fixed query,
  and returns what the engine answers. The ambulatory query has a year filter and no row
  cap; the population and municipality queries have a row cap and no year filter; the
  economic query has both.
\<close>

theorem loaders_one_query_each:
  "load_ambulatory_data engine = (engine ambulatory_query, [ambulatory_query])
   \<and> load_population_data engine = (engine population_query, [population_query])
   \<and> load_economic_data engine = (engine economic_query, [economic_query])
   \<and> load_municipio_data engine = (engine municipio_query, [municipio_query])
   \<and> filter_only ambulatory_query \<and> cap_only population_query
   \<and> filter_and_cap economic_query \<and> cap_only municipio_query"
  by (simp add: load_ambulatory_data_def load_population_data_def load_economic_data_def
      load_municipio_data_def read_sql_def cap_only_def filter_and_cap_def filter_only_def
      row_caps year_filters)

section \<open>The entries of the schema introspection\<close>

lemma explore_loop_lookup:
  "explore_loop engine ts m t = (if t \<in> set ts then Some (table_info engine t) else m t)"
  by (induction ts arbitrary: m) auto

lemma explore_lookup:
  "explore_database_structure engine t
   = (if t \<in> set tables then Some (table_info engine t) else None)"
  by (simp add: explore_database_structure_def explore_loop_lookup)

lemma table_info_cong:
  "engine' (sample_query t) = engine (sample_query t) \<Longrightarrow> table_info engine' t = table_info engine t"
  by (simp add: table_info_def read_sql_def)

lemma explore_entry:
  assumes "t \<in> set tables"
  shows "case engine (sample_query t) of
           Inl e \<Rightarrow> explore_database_structure engine t = Some (Error e)
         | Inr df \<Rightarrow>
             explore_database_structure engine t
             = Some (Info (fst df) (if fst df = [] \<or> snd df = [] then None else Some (hd (snd df))))"
proof (cases "engine (sample_query t)")
  case (Inl e)
  with assms show ?thesis
    by (simp add: explore_lookup table_info_def read_sql_def)
next
  case (Inr df)
  with assms show ?thesis
    by (cases "snd df") (simp_all add: explore_lookup table_info_def read_sql_def empty_def iloc0_def)
qed

lemma explore_entry_local:
  assumes "t \<in> set tables" and "engine' (sample_query t) = engine (sample_query t)"
  shows "explore_database_structure engine' t = explore_database_structure engine t"
  using assms(1) table_info_cong [of engine' t engine, OF assms(2)] by (simp add: explore_lookup)

text \<open>
  C8: the result has an entry for each of the four tables and for nothing else. The
  entry of a table is the error message when the sample query of that table fails, and
  otherwise the column names of the sample with its first row (no row when the sample is
  empty). It depends on the answer to that table's own query only: whatever happens to
  the other tables, on any other engine that answers this query alike, the entry is the
  same.
\<close>

theorem explore_entries:
  "dom (explore_database_structure engine) = set tables
   \<and> (\<forall>t\<in>set tables.
        (case engine (sample_query t) of
           Inl e \<Rightarrow> explore_database_structure engine t = Some (Error e)
         | Inr df \<Rightarrow>
             explore_database_structure engine t
             = Some (Info (fst df) (if fst df = [] \<or> snd df = [] then None else Some (hd (snd df)))))
        \<and> (\<forall>engine'. engine' (sample_query t) = engine (sample_query t) \<longrightarrow>
              explore_database_structure engine' t = explore_database_structure engine t))"
proof (intro conjI ballI allI impI)
  show "dom (explore_database_structure engine) = set tables"
    by (auto simp: explore_lookup dom_def split: if_splits)
next
  fix t assume "t \<in> set tables"
  then show "case engine (sample_query t) of
           Inl e \<Rightarrow> explore_database_structure engine t = Some (Error e)
         | Inr df \<Rightarrow>
             explore_database_structure engine t
             = Some (Info (fst df) (if fst df = [] \<or> snd df = [] then None else Some (hd (snd df))))"
    by (rule explore_entry)
next
  fix t engine'
  assume "t \<in> set tables" and "engine' (sample_query t) = engine (sample_query t)"
  then show "explore_database_structure engine' t = explore_database_structure engine t"
    by (rule explore_entry_local)
qed

text \<open>
  The theorem on the engine without \<open>pib_municipios\<close>: that table has an error entry,
  the others have their columns, and the entry of \<open>municipio\<close> is the one it has on
  the engine where every query succeeds.
\<close>

theorem explore_entries_witness:
  "explore_database_structure engine_sem_pib ''pib_municipios''
     = Some (Error ''relation does not exist'')
   \<and> explore_database_structure engine_sem_pib ''municipio''
     = Some (Info [''codigo'', ''nome''] None)
   \<and> explore_database_structure engine_sem_pib ''sus_procedimento_ambulatorial''
     = Some (Info [''a'', ''b''] (Some [1, 2]))
   \<and> explore_database_structure engine_ok ''municipio''
     = explore_database_structure engine_sem_pib ''municipio''"
proof -
  note e = explore_entries [of engine_sem_pib, THEN conjunct2, THEN bspec]
  have t1: "''pib_municipios'' \<in> set tables" and t2: "''municipio'' \<in> set tables"
    and t3: "''sus_procedimento_ambulatorial'' \<in> set tables"
    by (simp_all add: tables_def)
  have q1: "engine_sem_pib (sample_query ''pib_municipios'') = Inl ''relation does not exist''"
    by (simp add: engine_sem_pib_def)
  have q2: "engine_sem_pib (sample_query ''municipio'') = Inr ([''codigo'', ''nome''], [])"
    by (simp add: engine_sem_pib_def sample_query_def)
  have q3: "engine_sem_pib (sample_query ''sus_procedimento_ambulatorial'')
            = Inr ([''a'', ''b''], [[1, 2]])"
    by (simp add: engine_sem_pib_def sample_query_def)
  have q4: "engine_ok (sample_query ''municipio'') = engine_sem_pib (sample_query ''municipio'')"
    by (simp add: engine_ok_def q2)
  from e [OF t1] q1
  have r1: "explore_database_structure engine_sem_pib ''pib_municipios''
              = Some (Error ''relation does not exist'')"
    by simp
  from e [OF t2] q2
  have r2: "explore_database_structure engine_sem_pib ''municipio''
              = Some (Info [''codigo'', ''nome''] None)"
    by simp
  from e [OF t3] q3
  have r3: "explore_database_structure engine_sem_pib ''sus_procedimento_ambulatorial''
              = Some (Info [''a'', ''b''] (Some [1, 2]))"
    by simp
  from e [OF t2] q4
  have r4: "explore_database_structure engine_ok ''municipio''
              = explore_database_structure engine_sem_pib ''municipio''"
    by blast
  from r1 r2 r3 r4 show ?thesis by blast
qed

section \<open>Reading the export back\<close>

text \<open>The characters at which the reader leaves an unquoted field.\<close>

lemma tokenize_plain:
  "\<not> list_ex (special True) s \<Longrightarrow>
   tokenize InField fld row (s @ rest) = tokenize InField (fld @ s) row rest"
  by (induction s arbitrary: fld) (auto simp: special_def)

lemma field_plain_comma:
  assumes "\<not> list_ex (special True) s"
  shows "tokenize StartField [] row (s @ COMMA # rest) = tokenize StartField [] (row @ [s]) rest"
proof (cases s)
  case Nil
  then show ?thesis by simp
next
  case (Cons c s')
  with assms have c: "\<not> special True c" and s': "\<not> list_ex (special True) s'"
    by simp_all
  from c have "tokenize StartField [] row (s @ COMMA # rest)
               = tokenize InField [c] row (s' @ COMMA # rest)"
    by (simp add: Cons special_def)
  also have "\<dots> = tokenize InField ([c] @ s') row (COMMA # rest)"
    using s' by (rule tokenize_plain)
  finally show ?thesis by (simp add: Cons)
qed

lemma field_plain_lf:
  assumes "\<not> list_ex (special True) s" and "row \<noteq> [] \<or> s \<noteq> []"
  shows "tokenize StartField [] row (s @ LF # rest)
         = (row @ [s]) # tokenize StartField [] [] rest"
proof (cases s)
  case Nil
  with assms(2) show ?thesis by simp
next
  case (Cons c s')
  with assms have c: "\<not> special True c" and s': "\<not> list_ex (special True) s'"
    by simp_all
  from c have "tokenize StartField [] row (s @ LF # rest)
               = tokenize InField [c] row (s' @ LF # rest)"
    by (simp add: Cons special_def)
  also have "\<dots> = tokenize InField ([c] @ s') row (LF # rest)"
    using s' by (rule tokenize_plain)
  finally show ?thesis by (simp add: Cons)
qed

lemma tokenize_quoted:
  "tokenize InQuoted fld row (escape_quotes s @ DQ # rest)
   = tokenize QuoteInQuoted (fld @ s) row rest"
  by (induction s arbitrary: fld) (simp_all add: escape_quotes_def)

lemma field_quoted_comma:
  "tokenize StartField [] row (quote_field s @ COMMA # rest)
   = tokenize StartField [] (row @ [s]) rest"
  by (simp add: quote_field_def tokenize_quoted)

lemma field_quoted_lf:
  "tokenize StartField [] row (quote_field s @ LF # rest)
   = (row @ [s]) # tokenize StartField [] [] rest"
  by (simp add: quote_field_def tokenize_quoted)

text \<open>
  When the writer quotes carriage returns or the cell has none, a cell left unquoted
  holds no character at which the reader would leave the field.
\<close>

lemma unquoted_plain:
  assumes "safe_cell quote_cr s" and "\<not> list_ex (special quote_cr) s"
  shows "\<not> list_ex (special True) s"
  using assms by (auto simp: list_ex_iff special_def safe_cell_def)

lemma csv_field_comma:
  "safe_cell quote_cr s \<Longrightarrow>
   tokenize StartField [] row (csv_field quote_cr s @ COMMA # rest)
   = tokenize StartField [] (row @ [s]) rest"
  by (simp add: csv_field_def field_quoted_comma field_plain_comma unquoted_plain)

lemma csv_field_lf:
  "safe_cell quote_cr s \<Longrightarrow> row \<noteq> [] \<or> s \<noteq> [] \<Longrightarrow>
   tokenize StartField [] row (csv_field quote_cr s @ LF # rest)
   = (row @ [s]) # tokenize StartField [] [] rest"
  by (simp add: csv_field_def field_quoted_lf field_plain_lf unquoted_plain)

lemma join_fields_row:
  "fs \<noteq> [] \<Longrightarrow> row \<noteq> [] \<or> fs \<noteq> [[]] \<Longrightarrow> \<forall>s\<in>set fs. safe_cell quote_cr s \<Longrightarrow>
   tokenize StartField [] row (join_fields (map (csv_field quote_cr) fs) @ LF # rest)
   = (row @ fs) # tokenize StartField [] [] rest"
proof (induction fs arbitrary: row rule: join_fields.induct)
  case 1
  then show ?case by simp
next
  case (2 f)
  then show ?case by (simp add: csv_field_lf)
next
  case (3 f g fs)
  from "3.prems"(3) have f: "safe_cell quote_cr f"
    and rest: "\<forall>s\<in>set (g # fs). safe_cell quote_cr s"
    by simp_all
  have "tokenize StartField [] row
          (join_fields (map (csv_field quote_cr) (f # g # fs)) @ LF # rest)
        = tokenize StartField [] (row @ [f])
            (join_fields (map (csv_field quote_cr) (g # fs)) @ LF # rest)"
    using f by (simp add: csv_field_comma)
  also have "\<dots> = ((row @ [f]) @ g # fs) # tokenize StartField [] [] rest"
    using rest by (intro "3.IH") simp_all
  finally show ?case by simp
qed

lemma tokenize_writerow:
  assumes "fs \<noteq> []" and "\<forall>s\<in>set fs. safe_cell quote_cr s"
  shows "tokenize StartField [] [] (writerow quote_cr fs @ rest)
         = fs # tokenize StartField [] [] rest"
proof (cases "fs = [[]]")
  case True
  then show ?thesis by (simp add: writerow_def)
next
  case False
  with assms join_fields_row [of fs "[]" quote_cr rest] show ?thesis
    by (simp add: writerow_def)
qed

lemma tokenize_rows:
  "\<forall>fs\<in>set rows. fs \<noteq> [] \<and> (\<forall>s\<in>set fs. safe_cell quote_cr s) \<Longrightarrow>
   tokenize StartField [] [] (concat (map (writerow quote_cr) rows)) = rows"
  by (induction rows) (simp_all add: tokenize_writerow)

lemma read_csv_to_csv:
  assumes "quote_cr \<or> (\<forall>r\<in>set df. \<forall>s\<in>set (row_cells fmt r). CR \<notin> set s)"
  shows "read_csv (to_csv quote_cr fmt df) = Some (ambulatory_columns, map (row_cells fmt) df)"
proof -
  have header: "\<forall>s\<in>set ambulatory_columns. safe_cell quote_cr s"
    by (simp add: ambulatory_columns_def safe_cell_def)
  have cells: "\<forall>r\<in>set df. \<forall>s\<in>set (row_cells fmt r). safe_cell quote_cr s"
    using assms by (auto simp: safe_cell_def)
  have "\<forall>fs\<in>set (ambulatory_columns # map (row_cells fmt) df).
          fs \<noteq> [] \<and> (\<forall>s\<in>set fs. safe_cell quote_cr s)"
  proof
    fix fs assume "fs \<in> set (ambulatory_columns # map (row_cells fmt) df)"
    then consider "fs = ambulatory_columns" | r where "r \<in> set df" "fs = row_cells fmt r"
      by auto
    then show "fs \<noteq> [] \<and> (\<forall>s\<in>set fs. safe_cell quote_cr s)"
    proof cases
      case 1
      with header show ?thesis by (simp add: ambulatory_columns_def)
    next
      case 2
      have "row_cells fmt r \<noteq> []"
        by (simp add: row_cells_def)
      with 2 cells show ?thesis by simp
    qed
  qed
  then have "tokenize StartField [] [] (to_csv quote_cr fmt df)
             = ambulatory_columns # map (row_cells fmt) df"
    unfolding to_csv_def by (rule tokenize_rows)
  then show ?thesis by (simp add: read_csv_def)
qed

text \<open>
  C9, as the spec states it: for every non-empty table, reading the export back gives
  the rows of the table. Where the csv writer does not quote carriage returns, a cell
  that holds one is written as it is and the reader ends the record there: the one row
  of the table \<open>retorno_de_carro\<close> reads back as two.
\<close>

theorem csv_round_trip_counterexample:
  "retorno_de_carro \<noteq> [] \<and> length retorno_de_carro = 1
   \<and> read_csv (to_csv False fmt_virgula retorno_de_carro)
     = Some (ambulatory_columns,
         [[''3550308'', ''Sao''],
          [''Paulo'', ''Sudeste'', ''SP'', ''2020'', ''10.0'', ''100.0'', '''']])"
  by code_simp

text \<open>
  C9, amended: for every non-empty table and every formatting of the numbers, if the
  csv writer quotes carriage returns or no cell of the table is written with one, the
  export is computed, and reading it back gives the eight column names of the table as
  header and as many rows as the table has: the rows of its cells as written.
\<close>

theorem csv_round_trip:
  assumes "df \<noteq> []"
    and "quote_cr \<or> (\<forall>r\<in>set df. \<forall>s\<in>set (row_cells fmt r). CR \<notin> set s)"
  shows "csv_data quote_cr fmt df = Some (to_csv quote_cr fmt df)
         \<and> read_csv (to_csv quote_cr fmt df)
           = Some (ambulatory_columns, map (row_cells fmt) df)
         \<and> length (map (row_cells fmt) df) = length df"
  using assms by (simp add: csv_data_def read_csv_to_csv)

text \<open>
  The theorem at the table \<open>virgula\<close>, whose cells need quoting and hold no carriage
  return, with a writer that does not quote carriage returns; and at the table
  \<open>retorno_de_carro\<close> with a writer that does.
\<close>

theorem csv_round_trip_witness:
  "csv_data False fmt_virgula virgula = Some (to_csv False fmt_virgula virgula)
   \<and> read_csv (to_csv False fmt_virgula virgula)
       = Some (ambulatory_columns, map (row_cells fmt_virgula) virgula)
   \<and> length (map (row_cells fmt_virgula) virgula) = 2
   \<and> read_csv (to_csv True fmt_virgula retorno_de_carro)
       = Some (ambulatory_columns, map (row_cells fmt_virgula) retorno_de_carro)"
proof -
  have h: "virgula \<noteq> []" and h': "retorno_de_carro \<noteq> []"
    by (simp_all add: virgula_def retorno_de_carro_def)
  have n: "length virgula = 2"
    by (simp add: virgula_def)
  have cr: "False \<or> (\<forall>r\<in>set virgula. \<forall>s\<in>set (row_cells fmt_virgula r). CR \<notin> set s)"
    by code_simp
  have t: "True \<or> (\<forall>r\<in>set retorno_de_carro. \<forall>s\<in>set (row_cells fmt_virgula r). CR \<notin> set s)"
    by simp
  from csv_round_trip [OF h cr] csv_round_trip [OF h' t] n show ?thesis by simp
qed

end
